theory Spec2Isabelle
  imports Complex_Main
begin

section \<open>Data model of \<open>scripts/collect_metrics.py\<close>\<close>

text \<open>
  The script reads time series from a monitoring backend, turns every series into a
  data frame and plots the frames. The backend's messages are protocol buffers: the value
  of a point is a \<open>oneof\<close> of which at most one member is set, and reading a member that
  is not set gives the member's default (\<open>0.0\<close> for \<open>double_value\<close>, \<open>0\<close> for
  \<open>int64_value\<close>). The members the script never reads (bool, string, distribution) and
  the unset message are one constructor, \<open>Other_value\<close>.

  A finite double is modelled as the real number it stands for: the script only tests it
  for truthiness (a Python float is falsy exactly when it equals zero) and passes it on.
\<close>

type_synonym timestamp = int

datatype typed_value = Double_value real | Int64_value int | Other_value

fun double_value :: "typed_value \<Rightarrow> real" where
  "double_value (Double_value d) = d"
| "double_value _ = 0"

fun int64_value :: "typed_value \<Rightarrow> int" where
  "int64_value (Int64_value n) = n"
| "int64_value _ = 0"

record point =
  end_time :: timestamp
  point_value :: typed_value

record time_series =
  labels :: "string \<rightharpoonup> string"
  points :: "point list"

text \<open>
  What a cell of a data frame holds: \<open>None\<close>, the float \<open>NaN\<close>, a finite float, an int, or
  the time stamp that \<open>pd.to_datetime\<close> makes of \<open>end_time\<close>.
\<close>

datatype cell = PyNone | PyNaN | PyFloat real | PyInt int | PyTime timestamp

datatype error =
    KeyError string
  | FileExistsError
  | NotADirectoryError
  | IsADirectoryError
  | FileNotFoundError
  | TypeError string
  | BackendError string

text \<open>A row is the dict \<open>{'time': ..., 'value': ...}\<close>, kept as an association list
  in the order the keys are written.\<close>

type_synonym row = "(string \<times> cell) list"

text \<open>
  The conversion of an int to a double rounds to 53 significant bits, a tie going to the
  even neighbour; up to \<open>2 ^ 53\<close> in absolute value it is exact.
\<close>

function bit_length :: "int \<Rightarrow> nat" where
  "bit_length n = (if n \<le> 0 then 0 else Suc (bit_length (n div 2)))"
  by pat_completeness auto
termination
  by (relation "measure nat") auto

declare bit_length.simps [simp del]

definition double_of_int :: "int \<Rightarrow> real" where
  "double_of_int n =
     (let m = \<bar>n\<bar>;
          e = bit_length m - 53;
          q = m div 2 ^ e;
          r = m mod 2 ^ e;
          q' = (if 2 ^ e < 2 * r \<or> (2 * r = 2 ^ e \<and> odd q) then q + 1 else q)
      in of_int (sgn n * (q' * 2 ^ e)))"

text \<open>
  A data frame has an index and named columns of equal length. \<open>pd.DataFrame(rows)\<close>
  takes the columns from the keys of the dicts (all rows of the script carry the same two
  keys) and numbers the rows from zero; of an empty list it makes a frame with no columns.
  It gives every column one type: a column of ints stays a column of ints; a column that
  holds a number and, besides numbers, at most \<open>None\<close> becomes a column of doubles, in
  which an int is converted and \<open>None\<close> is \<open>NaN\<close>; any other column (only \<open>None\<close>, or time
  stamps) keeps its cells.
\<close>

fun is_int :: "cell \<Rightarrow> bool" where
  "is_int (PyInt n) = True"
| "is_int _ = False"

fun is_number :: "cell \<Rightarrow> bool" where
  "is_number (PyInt n) = True"
| "is_number (PyFloat d) = True"
| "is_number PyNaN = True"
| "is_number _ = False"

fun to_float64 :: "cell \<Rightarrow> cell" where
  "to_float64 (PyInt n) = PyFloat (double_of_int n)"
| "to_float64 PyNone = PyNaN"
| "to_float64 c = c"

definition infer_dtype :: "cell list \<Rightarrow> cell list" where
  "infer_dtype cs =
     (if list_all is_int cs then cs
      else if list_ex is_number cs \<and> list_all (\<lambda>c. is_number c \<or> c = PyNone) cs
      then map to_float64 cs
      else cs)"

record dataframe =
  index :: "cell list"
  columns :: "(string \<times> cell list) list"

definition cell_of :: "row \<Rightarrow> string \<Rightarrow> cell" where
  "cell_of r k = (case map_of r k of None \<Rightarrow> PyNone | Some c \<Rightarrow> c)"

definition DataFrame :: "row list \<Rightarrow> dataframe" where
  "DataFrame rows =
     \<lparr>index = map (\<lambda>i. PyInt (int i)) [0 ..< length rows],
      columns = (case rows of [] \<Rightarrow> []
                 | r # _ \<Rightarrow>
                     map (\<lambda>k. (k, infer_dtype (map (\<lambda>r'. cell_of r' k) rows))) (map fst r))\<rparr>"

definition set_index :: "string \<Rightarrow> dataframe \<Rightarrow> error + dataframe" where
  "set_index k df =
     (case map_of (columns df) k of
        None \<Rightarrow> Inl (KeyError k)
      | Some c \<Rightarrow> Inr \<lparr>index = c, columns = filter (\<lambda>kc. fst kc \<noteq> k) (columns df)\<rparr>)"

definition rename :: "(string \<rightharpoonup> string) \<Rightarrow> dataframe \<Rightarrow> dataframe" where
  "rename m df =
     df\<lparr>columns := map (\<lambda>kc. (case m (fst kc) of None \<Rightarrow> fst kc | Some k' \<Rightarrow> k', snd kc))
                        (columns df)\<rparr>"

text \<open>\<open>df[k]\<close>: the column named \<open>k\<close> with the frame's index, or \<open>KeyError\<close>.\<close>

definition getitem :: "dataframe \<Rightarrow> string \<Rightarrow> error + (cell \<times> cell) list" where
  "getitem df k =
     (case map_of (columns df) k of
        None \<Rightarrow> Inl (KeyError k)
      | Some c \<Rightarrow> Inr (zip (index df) c))"

section \<open>\<open>timeseries_to_df\<close>\<close>

text \<open>
  The body of the loop: \<open>v\<close> starts as \<open>None\<close>, takes \<open>double_value\<close> when that is
  truthy, otherwise \<open>int64_value\<close> when that is truthy, and the row is appended in every
  case.
\<close>

definition point_v :: "point \<Rightarrow> cell" where
  "point_v p =
     (if double_value (point_value p) \<noteq> 0 then PyFloat (double_value (point_value p))
      else if int64_value (point_value p) \<noteq> 0 then PyInt (int64_value (point_value p))
      else PyNone)"

definition point_row :: "point \<Rightarrow> row" where
  "point_row p = [(''time'', PyTime (end_time p)), (''value'', point_v p)]"

fun rows_loop :: "point list \<Rightarrow> row list \<Rightarrow> row list" where
  "rows_loop [] rows = rows"
| "rows_loop (p # ps) rows = rows_loop ps (rows @ [point_row p])"

definition timeseries_to_rows :: "time_series \<Rightarrow> row list" where
  "timeseries_to_rows series = rows_loop (points series) []"

definition timeseries_to_df :: "time_series \<Rightarrow> dataframe" where
  "timeseries_to_df series = DataFrame (timeseries_to_rows series)"

section \<open>\<open>fetch_metric\<close>\<close>

text \<open>
  The client is the backend seen from the script: \<open>respond\<close> is what the backend answers
  to a request (the series, or the error the call raises), \<open>calls\<close> the requests it has
  received so far. \<open>list(results)\<close> reads the whole answer into a list.
\<close>

datatype view = FULL | HEADERS

record time_interval =
  interval_end_time :: int
  interval_start_time :: int

record request =
  req_name :: string
  req_filter :: string
  req_interval :: time_interval
  req_view :: view

record client =
  respond :: "request \<Rightarrow> error + time_series list"
  calls :: "request list"

definition list_time_series :: "client \<Rightarrow> request \<Rightarrow> (error + time_series list) \<times> client" where
  "list_time_series c r = (respond c r, c\<lparr>calls := calls c @ [r]\<rparr>)"

definition fetch_metric ::
  "client \<Rightarrow> string \<Rightarrow> string \<Rightarrow> time_interval \<Rightarrow> (error + time_series list) \<times> client" where
  "fetch_metric c project filter' interval =
     list_time_series c
       \<lparr>req_name = ''projects/'' @ project,
        req_filter = filter',
        req_interval = interval,
        req_view = FULL\<rparr>"

section \<open>Files\<close>

text \<open>
  The file system is a tree of directories and files. A path string is resolved from the
  root of the tree by its components: the parts between \<open>/\<close>, without the empty ones and
  without \<open>.\<close> (parent links \<open>..\<close>, symbolic links and permissions are not modelled).
\<close>

record figure =
  fig_lines :: "(cell \<times> cell) list list"
  fig_title :: string
  fig_xlabel :: string
  fig_ylabel :: string

datatype content = Bytes string | Png figure

datatype node = File content | Dir "(string \<times> node) list"

fun split_slash :: "string \<Rightarrow> string list" where
  "split_slash [] = [[]]"
| "split_slash (c # cs) =
     (if c = CHR ''/'' then [] # split_slash cs
      else (case split_slash cs of [] \<Rightarrow> [[c]] | x # xs \<Rightarrow> (c # x) # xs))"

definition components :: "string \<Rightarrow> string list" where
  "components s = filter (\<lambda>c. c \<noteq> [] \<and> c \<noteq> ''.'') (split_slash s)"

text \<open>\<open>os.path.join\<close> of a path and a name that does not start with \<open>/\<close>.\<close>

definition path_join :: "string \<Rightarrow> string \<Rightarrow> string" where
  "path_join a b = (if a = [] \<or> last a = CHR ''/'' then a @ b else a @ ''/'' @ b)"

fun lookup :: "node \<Rightarrow> string list \<Rightarrow> node option" where
  "lookup n [] = Some n"
| "lookup (File c) (k # ks) = None"
| "lookup (Dir es) (k # ks) = (case map_of es k of None \<Rightarrow> None | Some n \<Rightarrow> lookup n ks)"

fun is_dir :: "node option \<Rightarrow> bool" where
  "is_dir (Some (Dir es)) = True"
| "is_dir _ = False"

fun put :: "string \<Rightarrow> node \<Rightarrow> (string \<times> node) list \<Rightarrow> (string \<times> node) list" where
  "put k n [] = [(k, n)]"
| "put k n (e # es) = (if fst e = k then (k, n) # es else e # put k n es)"

fun fresh_dirs :: "string list \<Rightarrow> node" where
  "fresh_dirs [] = Dir []"
| "fresh_dirs (k # ks) = Dir [(k, fresh_dirs ks)]"

text \<open>
  \<open>os.makedirs(name, exist_ok)\<close> on the components of \<open>name\<close>: the directories that are
  missing are created, those that exist are entered. A component that is a file stops it:
  \<open>FileExistsError\<close> when it is the last one, \<open>NotADirectoryError\<close> before. When the
  last component exists as a directory, \<open>mkdir\<close> raises \<open>FileExistsError\<close>, which
  \<open>exist_ok\<close> suppresses.
\<close>

fun makedirs_at :: "bool \<Rightarrow> node \<Rightarrow> string list \<Rightarrow> error + node" where
  "makedirs_at exist_ok (File c) [] = Inl FileExistsError"
| "makedirs_at exist_ok (File c) (k # ks) = Inl NotADirectoryError"
| "makedirs_at exist_ok (Dir es) [] = (if exist_ok then Inr (Dir es) else Inl FileExistsError)"
| "makedirs_at exist_ok (Dir es) (k # ks) =
     (case map_of es k of
        None \<Rightarrow> Inr (Dir (put k (fresh_dirs ks) es))
      | Some n \<Rightarrow>
          (case makedirs_at exist_ok n ks of
             Inl e \<Rightarrow> Inl e
           | Inr n' \<Rightarrow> Inr (Dir (put k n' es))))"

definition makedirs :: "string \<Rightarrow> bool \<Rightarrow> node \<Rightarrow> error + node" where
  "makedirs name exist_ok tree =
     (if name = [] then Inl FileNotFoundError else makedirs_at exist_ok tree (components name))"

text \<open>What \<open>os.path.exists\<close> and \<open>os.path.isdir\<close> look at: the empty path names nothing.\<close>

definition path_lookup :: "node \<Rightarrow> string \<Rightarrow> node option" where
  "path_lookup tree name = (if name = [] then None else lookup tree (components name))"

text \<open>Writing a file: its directory has to exist, and the path must not be a directory.\<close>

fun write_at :: "node \<Rightarrow> string list \<Rightarrow> content \<Rightarrow> error + node" where
  "write_at (File c') [] c = Inr (File c)"
| "write_at (Dir es) [] c = Inl IsADirectoryError"
| "write_at (File c') (k # ks) c = Inl NotADirectoryError"
| "write_at (Dir es) (k # ks) c =
     (case map_of es k of
        None \<Rightarrow> (if ks = [] then Inr (Dir (put k (File c) es)) else Inl FileNotFoundError)
      | Some n \<Rightarrow>
          (case write_at n ks c of
             Inl e \<Rightarrow> Inl e
           | Inr n' \<Rightarrow> Inr (Dir (put k n' es))))"

definition write_file :: "string \<Rightarrow> content \<Rightarrow> node \<Rightarrow> error + node" where
  "write_file name c tree = write_at tree (components name) c"

section \<open>\<open>main\<close>\<close>

text \<open>
  What \<open>main\<close> reads and changes: the parsed command line, the process environment, the
  clock, the local time zone, the backend and the file system. \<open>utcnow\<close> is the time of
  the run in microseconds since the epoch, which is what the naive \<open>datetime\<close> returned by
  \<open>datetime.utcnow()\<close> shows. \<open>utc_offset\<close> is the number of seconds by which local time
  is ahead of UTC (one offset, without a change of offset within the hour before the run).
  \<open>timestamp()\<close> reads a naive \<open>datetime\<close> as local time, so it subtracts the offset, and
  \<open>int\<close> cuts the seconds towards zero.
\<close>

record args =
  out_dir :: string
  start :: "string option"
  end' :: "string option"

record world =
  fs :: node
  environ :: "string \<rightharpoonup> string"
  utcnow :: int
  utc_offset :: int
  backend :: client

text \<open>The defaults of the argument parser.\<close>

definition parse_args_default :: args where
  "parse_args_default = \<lparr>out_dir = ''results/metrics'', start = None, end' = None\<rparr>"

definition timedelta_minutes :: "int \<Rightarrow> int" where
  "timedelta_minutes m = m * 60 * 1000000"

definition int_timestamp :: "int \<Rightarrow> int \<Rightarrow> int" where
  "int_timestamp offset d =
     (let us = d - offset * 1000000
      in if 0 \<le> us then us div 1000000 else - ((- us) div 1000000))"

definition main_interval :: "world \<Rightarrow> time_interval" where
  "main_interval w =
     (let now = utcnow w;
          start = now - timedelta_minutes 60
      in \<lparr>interval_end_time = int_timestamp (utc_offset w) now,
          interval_start_time = int_timestamp (utc_offset w) start\<rparr>)"

definition cpu_filter :: string where
  \<open>cpu_filter = ''metric.type="compute.googleapis.com/instance/cpu/utilization"''\<close>

definition labels_get :: "(string \<rightharpoonup> string) \<Rightarrow> string \<Rightarrow> string \<Rightarrow> string" where
  "labels_get m k d = (case m k of None \<Rightarrow> d | Some v \<Rightarrow> v)"

text \<open>The loop that builds \<open>frames\<close>: one frame per series, appended in order.\<close>

definition series_frame :: "time_series \<Rightarrow> error + dataframe" where
  "series_frame s =
     (let df = timeseries_to_df s
      in case set_index ''time'' df of
           Inl e \<Rightarrow> Inl e
         | Inr df' \<Rightarrow>
             Inr (rename [''value'' \<mapsto> labels_get (labels s) ''instance_name'' ''instance''] df'))"

fun frames_loop :: "time_series list \<Rightarrow> dataframe list \<Rightarrow> error + dataframe list" where
  "frames_loop [] frames = Inr frames"
| "frames_loop (s # ss) frames =
     (case series_frame s of
        Inl e \<Rightarrow> Inl e
      | Inr f \<Rightarrow> frames_loop ss (frames @ [f]))"

text \<open>
  The plot: a new figure, then \<open>f['value'].plot()\<close> for every frame. \<open>plot\<close> draws a
  column of numbers against the index and raises \<open>TypeError\<close> on a column without numbers.
\<close>

definition new_figure :: figure where
  "new_figure = \<lparr>fig_lines = [], fig_title = [], fig_xlabel = [], fig_ylabel = []\<rparr>"

definition plot :: "(cell \<times> cell) list \<Rightarrow> figure \<Rightarrow> error + figure" where
  "plot line fig =
     (if line \<noteq> [] \<and> list_all (\<lambda>xy. is_number (snd xy)) line
      then Inr (fig\<lparr>fig_lines := fig_lines fig @ [line]\<rparr>)
      else Inl (TypeError ''no numeric data to plot''))"

fun plot_loop :: "dataframe list \<Rightarrow> figure \<Rightarrow> error + figure" where
  "plot_loop [] fig = Inr fig"
| "plot_loop (f # frames) fig =
     (case getitem f ''value'' of
        Inl e \<Rightarrow> Inl e
      | Inr line \<Rightarrow>
          (case plot line fig of
             Inl e \<Rightarrow> Inl e
           | Inr fig' \<Rightarrow> plot_loop frames fig'))"

definition main_plot :: "dataframe list \<Rightarrow> error + figure" where
  "main_plot frames =
     (case plot_loop frames new_figure of
        Inl e \<Rightarrow> Inl e
      | Inr fig \<Rightarrow>
          Inr (fig\<lparr>fig_title := ''CPU utilization'',
                   fig_xlabel := ''time'',
                   fig_ylabel := ''utilization''\<rparr>))"

text \<open>The first step of \<open>main\<close>: \<open>os.makedirs(args.out_dir, exist_ok=True)\<close>.\<close>

definition directory_setup :: "args \<Rightarrow> world \<Rightarrow> error + node" where
  "directory_setup a w = makedirs (out_dir a) True (fs w)"

text \<open>
  \<open>main\<close> returns the error that ends the run, or nothing, and the world it leaves behind.
\<close>

definition main :: "args \<Rightarrow> world \<Rightarrow> (error + unit) \<times> world" where
  "main a w =
     (case directory_setup a w of
        Inl e \<Rightarrow> (Inl e, w)
      | Inr fs1 \<Rightarrow>
          (let w1 = w\<lparr>fs := fs1\<rparr> in
           case environ w1 ''GOOGLE_CLOUD_PROJECT'' of
             None \<Rightarrow> (Inl (KeyError ''GOOGLE_CLOUD_PROJECT''), w1)
           | Some project \<Rightarrow>
               (let interval = main_interval w1;
                    fetched = fetch_metric (backend w1) project cpu_filter interval;
                    w2 = w1\<lparr>backend := snd fetched\<rparr>
                in case fst fetched of
                     Inl e \<Rightarrow> (Inl e, w2)
                   | Inr series \<Rightarrow>
                       (case frames_loop series [] of
                          Inl e \<Rightarrow> (Inl e, w2)
                        | Inr frames \<Rightarrow>
                            (case main_plot frames of
                               Inl e \<Rightarrow> (Inl e, w2)
                             | Inr fig \<Rightarrow>
                                 (case write_file (path_join (out_dir a) ''cpu_util.png'')
                                         (Png fig) (fs w2) of
                                    Inl e \<Rightarrow> (Inl e, w2)
                                  | Inr fs2 \<Rightarrow> (Inr (), w2\<lparr>fs := fs2\<rparr>)))))))"

section \<open>Example inputs\<close>

text \<open>
  Concrete points, series and worlds on which the model is run below. The example world
  has the project variable set, a clock that reads 1700000000 seconds, the time zone UTC,
  and a backend that answers every request with the given series.
\<close>

definition pt :: "timestamp \<Rightarrow> typed_value \<Rightarrow> point" where
  "pt t v = \<lparr>end_time = t, point_value = v\<rparr>"

definition series_named :: "string option \<Rightarrow> point list \<Rightarrow> time_series" where
  "series_named name ps =
     \<lparr>labels = (case name of None \<Rightarrow> Map.empty | Some v \<Rightarrow> [''instance_name'' \<mapsto> v]),
      points = ps\<rparr>"

definition world_of :: "node \<Rightarrow> time_series list \<Rightarrow> world" where
  "world_of tree ss =
     \<lparr>fs = tree,
      environ = [''GOOGLE_CLOUD_PROJECT'' \<mapsto> ''proj1''],
      utcnow = 1700000000000000,
      utc_offset = 0,
      backend = \<lparr>respond = (\<lambda>r. Inr ss), calls = []\<rparr>\<rparr>"

lemmas ev = pt_def series_named_def world_of_def timeseries_to_df_def timeseries_to_rows_def
  DataFrame_def infer_dtype_def cell_of_def point_row_def point_v_def

lemmas ev_main = main_def directory_setup_def makedirs_def components_def path_join_def
  write_file_def main_interval_def int_timestamp_def timedelta_minutes_def fetch_metric_def
  list_time_series_def main_plot_def new_figure_def plot_def getitem_def series_frame_def
  set_index_def
  rename_def labels_get_def parse_args_default_def path_lookup_def

section \<open>Properties of the reshaping of points\<close>

lemma rows_loop_map: "rows_loop ps rows = rows @ map point_row ps"
  by (induction ps arbitrary: rows) simp_all

lemma timeseries_to_rows_map: "timeseries_to_rows s = map point_row (points s)"
  by (simp add: timeseries_to_rows_def rows_loop_map)

lemma cell_of_point_row:
  "cell_of (point_row p) ''time'' = PyTime (end_time p)"
  "cell_of (point_row p) ''value'' = point_v p"
  by (simp_all add: cell_of_def point_row_def)

lemma bit_length_examples:
  "bit_length 5 = 3"
  "bit_length 9007199254740993 = 54"
  by (simp_all add: bit_length.simps)

lemma double_of_int_examples:
  "double_of_int 5 = 5"
  "double_of_int 9007199254740993 = 9007199254740992"
  by (simp_all add: double_of_int_def Let_def bit_length_examples)

lemma infer_dtype_times:
  "infer_dtype (map (\<lambda>p. PyTime (f p)) ps) = map (\<lambda>p. PyTime (f p)) ps"
  by (auto simp: infer_dtype_def list_ex_iff)

lemma point_v_cases: "is_number (point_v p) \<or> point_v p = PyNone"
  by (simp add: point_v_def)

lemma is_int_point_v:
  "is_int (point_v p) \<longleftrightarrow> (\<exists>m. point_value p = Int64_value m \<and> m \<noteq> 0)"
  by (cases "point_value p") (simp_all add: point_v_def)

lemma infer_dtype_point_v:
  "infer_dtype (map point_v ps) =
     (if \<forall>p \<in> set ps. is_int (point_v p) then map point_v ps
      else if \<exists>p \<in> set ps. is_number (point_v p) then map (\<lambda>p. to_float64 (point_v p)) ps
      else map point_v ps)"
  using point_v_cases by (auto simp: infer_dtype_def list_all_iff list_ex_iff)

lemma length_infer_dtype: "length (infer_dtype cs) = length cs"
  by (simp add: infer_dtype_def)

lemma timeseries_to_df_columns:
  "points s \<noteq> [] \<Longrightarrow>
   columns (timeseries_to_df s) =
     [(''time'', map (\<lambda>p. PyTime (end_time p)) (points s)),
      (''value'', infer_dtype (map point_v (points s)))]"
proof -
  assume ne: "points s \<noteq> []"
  then obtain p ps where ps: "points s = p # ps"
    by (cases "points s") auto
  have t: "map (\<lambda>r'. cell_of r' ''time'') (map point_row (points s)) =
           map (\<lambda>p. PyTime (end_time p)) (points s)"
    by (simp add: cell_of_point_row)
  have v: "map (\<lambda>r'. cell_of r' ''value'') (map point_row (points s)) = map point_v (points s)"
    by (simp add: cell_of_point_row)
  have "columns (timeseries_to_df s) =
     [(''time'', infer_dtype (map (\<lambda>r'. cell_of r' ''time'') (map point_row (points s)))),
      (''value'', infer_dtype (map (\<lambda>r'. cell_of r' ''value'') (map point_row (points s))))]"
    by (simp add: timeseries_to_df_def timeseries_to_rows_map DataFrame_def ps)
       (simp add: point_row_def)
  then show ?thesis
    by (simp only: t v infer_dtype_times)
qed

lemma timeseries_to_df_empty:
  "points s = [] \<Longrightarrow> columns (timeseries_to_df s) = []"
  by (simp add: timeseries_to_df_def timeseries_to_rows_map DataFrame_def)

lemma series_frame_points:
  "points s \<noteq> [] \<Longrightarrow>
   series_frame s =
     Inr \<lparr>index = map (\<lambda>p. PyTime (end_time p)) (points s),
          columns = [(labels_get (labels s) ''instance_name'' ''instance'',
                      infer_dtype (map point_v (points s)))]\<rparr>"
  by (simp add: series_frame_def set_index_def rename_def timeseries_to_df_columns)

lemma series_frame_empty:
  "points s = [] \<Longrightarrow> series_frame s = Inl (KeyError ''time'')"
  by (simp add: series_frame_def set_index_def timeseries_to_df_empty)

lemma frames_loop_points:
  "\<forall>s \<in> set ss. points s \<noteq> [] \<Longrightarrow>
   frames_loop ss frames =
     Inr (frames @ map (\<lambda>s. \<lparr>index = map (\<lambda>p. PyTime (end_time p)) (points s),
          columns = [(labels_get (labels s) ''instance_name'' ''instance'',
                      infer_dtype (map point_v (points s)))]\<rparr>) ss)"
  by (induction ss arbitrary: frames) (simp_all add: series_frame_points)

lemma frames_loop_success:
  "frames_loop ss frames = Inr result \<Longrightarrow> \<forall>s \<in> set ss. points s \<noteq> []"
  by (induction ss arbitrary: frames)
     (auto simp: series_frame_empty split: sum.splits)

text \<open>
  Once a frame's column carries the series' name, \<open>f['value']\<close> finds it only when that
  name is \<open>value\<close> itself.
\<close>

lemma plot_loop_renamed_column:
  assumes "series_frame s = Inr f"
    and "labels_get (labels s) ''instance_name'' ''instance'' \<noteq> ''value''"
  shows "plot_loop (f # frames) fig = Inl (KeyError ''value'')"
proof (cases "points s = []")
  case True
  with assms show ?thesis by (simp add: series_frame_empty)
next
  case False
  from series_frame_points [OF False] assms show ?thesis
    by (auto simp: getitem_def)
qed

section \<open>Properties of the directory tree\<close>

lemma put_same: "map_of es k = Some n \<Longrightarrow> put k n es = es"
  by (induction es) (auto split: if_splits)

lemma map_of_put: "map_of (put k n es) k = Some n"
  by (induction es) auto

lemma makedirs_at_existing:
  "lookup t ks = Some (Dir es) \<Longrightarrow> makedirs_at True t ks = Inr t"
  by (induction t ks rule: lookup.induct) (auto split: option.splits simp: put_same)

lemma lookup_fresh: "is_dir (lookup (fresh_dirs ks) ks)"
  by (induction ks) auto

lemma makedirs_at_post:
  "makedirs_at ok t ks = Inr t' \<Longrightarrow> is_dir (lookup t' ks)"
  by (induction ok t ks arbitrary: t' rule: makedirs_at.induct)
     (auto split: option.splits sum.splits if_splits simp: map_of_put lookup_fresh)

lemma makedirs_at_error:
  "makedirs_at True t ks = Inl e \<Longrightarrow>
   \<exists>n c. n \<le> length ks \<and> lookup t (take n ks) = Some (File c)"
proof (induction t ks rule: lookup.induct)
  case (1 n)
  then show ?case by (cases n) auto
next
  case (2 c k ks)
  have "0 \<le> length (k # ks) \<and> lookup (File c) (take 0 (k # ks)) = Some (File c)" by simp
  then show ?case by blast
next
  case (3 es k ks)
  from 3(2) obtain n where n: "map_of es k = Some n" "makedirs_at True n ks = Inl e"
    by (auto split: option.splits sum.splits)
  from 3(1)[OF n] obtain m c where "m \<le> length ks" "lookup n (take m ks) = Some (File c)"
    by blast
  then have "Suc m \<le> length (k # ks) \<and> lookup (Dir es) (take (Suc m) (k # ks)) = Some (File c)"
    using n by simp
  then show ?case by blast
qed

section \<open>Values of points\<close>

text \<open>
  C1. The claim: a point whose populated field holds zero, the other field being absent,
  gives a sample whose value is a present zero, not a missing one. The script tests the
  fields by truthiness, so a point whose \<open>double_value\<close> is set to zero, and one whose
  \<open>int64_value\<close> is set to zero, both get the value \<open>None\<close>: run on a series of these two
  points, \<open>timeseries_to_df\<close> gives a frame whose value column is missing twice.
\<close>

theorem zero_value_is_missing:
  "timeseries_to_df (series_named None [pt 1 (Double_value 0), pt 2 (Int64_value 0)]) =
     \<lparr>index = [PyInt 0, PyInt 1],
      columns = [(''time'', [PyTime 1, PyTime 2]), (''value'', [PyNone, PyNone])]\<rparr>"
  by (simp add: ev upt_rec)

text \<open>
  C2. The claim: a point in which neither field carries a value is dropped and contributes
  no row. Counterexample: the series of one such point, with time stamp 7, gives one row,
  with that time stamp and the value \<open>None\<close>.
\<close>

theorem unset_point_keeps_row:
  "timeseries_to_rows (series_named None [pt 7 Other_value]) =
     [[(''time'', PyTime 7), (''value'', PyNone)]] \<and>
   timeseries_to_rows (series_named None [pt 7 Other_value]) \<noteq> []"
  by (simp add: ev)

text \<open>
  C2, as amended: every point contributes exactly one row, in order, carrying its time
  stamp; the row of a point in which neither field carries a value has the value \<open>None\<close>.
\<close>

theorem every_point_gives_one_row:
  "length (timeseries_to_rows s) = length (points s) \<and>
   map (\<lambda>r. cell_of r ''time'') (timeseries_to_rows s) = map (\<lambda>p. PyTime (end_time p)) (points s) \<and>
   point_row \<lparr>end_time = t, point_value = Other_value\<rparr> = [(''time'', PyTime t), (''value'', PyNone)]"
proof -
  have "map (\<lambda>r. cell_of r ''time'') (timeseries_to_rows s) =
        map (\<lambda>p. PyTime (end_time p)) (points s)"
    by (simp add: timeseries_to_rows_map cell_of_point_row)
  moreover have "point_row \<lparr>end_time = t, point_value = Other_value\<rparr> =
        [(''time'', PyTime t), (''value'', PyNone)]"
    by (simp add: point_row_def point_v_def)
  ultimately show ?thesis
    by (simp add: timeseries_to_rows_map)
qed

text \<open>
  C7. The claim: a point with only the integer field set to a non-zero value gives a sample
  with that value coerced to floating point. Counterexample: the series of the one point
  with \<open>int64_value = 5\<close> gives a frame whose value column holds the integer 5, in a
  column of ints, not the float 5.0.
\<close>

theorem int_point_not_coerced:
  "timeseries_to_df (series_named None [pt 1 (Int64_value 5)]) =
     \<lparr>index = [PyInt 0], columns = [(''time'', [PyTime 1]), (''value'', [PyInt 5])]\<rparr> \<and>
   PyInt 5 \<noteq> PyFloat 5"
  by (simp add: ev)

text \<open>
  C7, as amended: in the frame that \<open>timeseries_to_df\<close> returns, a point with only the
  floating-point field set to a non-zero value has exactly that float in the value column,
  at its position. A point with only the integer field set to a non-zero value has that
  integer there, as an integer, when every point of the series has a non-zero integer
  value; otherwise it has there that integer converted to a double.
\<close>

theorem nonzero_value_kept:
  assumes "i < length (points s)"
  shows "\<exists>col. map_of (columns (timeseries_to_df s)) ''value'' = Some col \<and>
     length col = length (points s) \<and>
     (\<forall>d. point_value (points s ! i) = Double_value d \<and> d \<noteq> 0 \<longrightarrow> col ! i = PyFloat d) \<and>
     (\<forall>n. point_value (points s ! i) = Int64_value n \<and> n \<noteq> 0 \<longrightarrow>
        col ! i =
          (if \<forall>p \<in> set (points s). \<exists>m. point_value p = Int64_value m \<and> m \<noteq> 0
           then PyInt n else PyFloat (double_of_int n)))"
proof -
  let ?ps = "points s"
  let ?col = "infer_dtype (map point_v ?ps)"
  from assms have ne: "?ps \<noteq> []" by auto
  have mem: "?ps ! i \<in> set ?ps" using assms by simp
  have col: "map_of (columns (timeseries_to_df s)) ''value'' = Some ?col"
    by (simp add: timeseries_to_df_columns [OF ne])
  have float: "?col ! i = PyFloat d" if "point_value (?ps ! i) = Double_value d" "d \<noteq> 0" for d
  proof -
    from that have v: "point_v (?ps ! i) = PyFloat d" by (simp add: point_v_def)
    then have "\<not> (\<forall>p \<in> set ?ps. is_int (point_v p))" "\<exists>p \<in> set ?ps. is_number (point_v p)"
      using mem by force+
    then show ?thesis using assms v by (simp add: infer_dtype_point_v)
  qed
  have int: "?col ! i =
      (if \<forall>p \<in> set ?ps. \<exists>m. point_value p = Int64_value m \<and> m \<noteq> 0
       then PyInt n else PyFloat (double_of_int n))"
    if "point_value (?ps ! i) = Int64_value n" "n \<noteq> 0" for n
  proof -
    from that have v: "point_v (?ps ! i) = PyInt n" by (simp add: point_v_def)
    then have "\<exists>p \<in> set ?ps. is_number (point_v p)" using mem by force
    then show ?thesis using assms v by (simp add: infer_dtype_point_v is_int_point_v)
  qed
  from col float int show ?thesis
    by (intro exI [of _ ?col]) (simp add: length_infer_dtype)
qed

text \<open>
  C7, witness: in the series of an integer point, a point without a value and a float
  point, the integer \<open>2 ^ 53 + 1\<close> becomes the double \<open>2 ^ 53\<close> and the float stays as it
  is; in the series of two integer points the integers stay integers.
\<close>

theorem nonzero_value_kept_witness:
  "map_of (columns (timeseries_to_df (series_named None
      [pt 1 (Int64_value 9007199254740993), pt 2 Other_value, pt 3 (Double_value (5 / 2))])))
     ''value'' = Some [PyFloat 9007199254740992, PyNaN, PyFloat (5 / 2)] \<and>
   map_of (columns (timeseries_to_df (series_named None
      [pt 1 (Int64_value 5), pt 2 (Int64_value 7)]))) ''value'' = Some [PyInt 5, PyInt 7]"
proof -
  let ?mixed = "series_named None
      [pt 1 (Int64_value 9007199254740993), pt 2 Other_value, pt 3 (Double_value (5 / 2))]"
  let ?ints = "series_named None [pt 1 (Int64_value 5), pt 2 (Int64_value 7)]"
  have a: "map_of (columns (timeseries_to_df ?mixed)) ''value'' =
      Some [PyFloat 9007199254740992, PyNaN, PyFloat (5 / 2)]"
    by (simp add: ev double_of_int_examples)
  have b: "map_of (columns (timeseries_to_df ?ints)) ''value'' = Some [PyInt 5, PyInt 7]"
    by (simp add: ev)
  have i: "0 < length (points ?mixed)" "2 < length (points ?mixed)" "0 < length (points ?ints)"
    by (simp_all add: series_named_def)
  note w = nonzero_value_kept [OF i(1)] nonzero_value_kept [OF i(2)] nonzero_value_kept [OF i(3)]
  from a b w show ?thesis by simp
qed

section \<open>Frames\<close>

text \<open>
  C3. The claim: reshaping gives a single table with exactly one column per distinct
  display key. Counterexample: two series without the label \<open>instance_name\<close> give two
  frames, each with its own column headed \<open>instance\<close>, for the one display key there is.
\<close>

theorem two_frames_one_key:
  "frames_loop [series_named None [pt 1 (Double_value 10)],
                series_named None [pt 2 (Int64_value 5)]] [] =
     Inr [\<lparr>index = [PyTime 1], columns = [(''instance'', [PyFloat 10])]\<rparr>,
          \<lparr>index = [PyTime 2], columns = [(''instance'', [PyInt 5])]\<rparr>] \<and>
   remdups (map (\<lambda>s. labels_get (labels s) ''instance_name'' ''instance'')
     [series_named None [pt 1 (Double_value 10)], series_named None [pt 2 (Int64_value 5)]]) =
     [''instance'']"
  by (simp add: ev series_frame_def set_index_def rename_def labels_get_def)

text \<open>
  C3, as amended: for every list of series that have at least one point each, reshaping
  gives one frame per series, in the order of the series; each frame has exactly one
  column, headed by the display key of its series, and is indexed by the time stamps of the
  points of its series, so that the time stamps of all frames together are those of all
  input points.
\<close>

theorem frames_one_per_series:
  assumes "\<forall>s \<in> set ss. points s \<noteq> []"
  shows "\<exists>frames. frames_loop ss [] = Inr frames \<and>
     map (\<lambda>f. map fst (columns f)) frames =
       map (\<lambda>s. [labels_get (labels s) ''instance_name'' ''instance'']) ss \<and>
     map index frames = map (\<lambda>s. map (\<lambda>p. PyTime (end_time p)) (points s)) ss \<and>
     (\<Union>f \<in> set frames. set (index f)) =
       (\<Union>s \<in> set ss. \<Union>p \<in> set (points s). {PyTime (end_time p)})"
  using frames_loop_points [OF assms, of "[]"] by (auto simp: comp_def)

text \<open>
  C3, witness: the series \<open>a\<close> with points at times 1 and 2 and the series \<open>b\<close> with a
  point at time 1.
\<close>

theorem frames_one_per_series_witness:
  "\<exists>frames. frames_loop [series_named (Some ''a'') [pt 1 (Double_value 10), pt 2 (Double_value 20)],
                          series_named (Some ''b'') [pt 1 (Int64_value 5)]] [] = Inr frames \<and>
     map (\<lambda>f. map fst (columns f)) frames = [[''a''], [''b'']] \<and>
     map index frames = [[PyTime 1, PyTime 2], [PyTime 1]] \<and>
     (\<Union>f \<in> set frames. set (index f)) = {PyTime 1, PyTime 2}"
  using frames_one_per_series
    [of "[series_named (Some ''a'') [pt 1 (Double_value 10), pt 2 (Double_value 20)],
          series_named (Some ''b'') [pt 1 (Int64_value 5)]]"]
  by (simp add: pt_def series_named_def labels_get_def insert_commute)

text \<open>
  C9. Whenever the loop over the series returns the list of frames, it holds one frame per
  series, and the frame of every series has its one column headed by the literal
  \<open>instance\<close> if the series has no label \<open>instance_name\<close>, and by the value of that label
  if it has one. The loop returns the list whenever every series has a point.
\<close>

theorem column_header_from_label:
  "(frames_loop ss [] = Inr frames \<longrightarrow>
      length frames = length ss \<and>
      (\<forall>i < length ss.
         (labels (ss ! i) ''instance_name'' = None \<longrightarrow>
            map fst (columns (frames ! i)) = [''instance'']) \<and>
         (\<forall>v. labels (ss ! i) ''instance_name'' = Some v \<longrightarrow>
            map fst (columns (frames ! i)) = [v]))) \<and>
   ((\<forall>s \<in> set ss. points s \<noteq> []) \<longrightarrow> (\<exists>result. frames_loop ss [] = Inr result))"
proof (intro conjI impI)
  assume ok: "frames_loop ss [] = Inr frames"
  from frames_loop_success [OF ok] have ne: "\<forall>s \<in> set ss. points s \<noteq> []" .
  from frames_loop_points [OF ne, of "[]"] ok
  have fr: "frames =
      map (\<lambda>s. \<lparr>index = map (\<lambda>p. PyTime (end_time p)) (points s),
          columns = [(labels_get (labels s) ''instance_name'' ''instance'',
                      infer_dtype (map point_v (points s)))]\<rparr>) ss"
    by simp
  show "length frames = length ss"
    by (simp add: fr)
  show "\<forall>i < length ss.
         (labels (ss ! i) ''instance_name'' = None \<longrightarrow>
            map fst (columns (frames ! i)) = [''instance'']) \<and>
         (\<forall>v. labels (ss ! i) ''instance_name'' = Some v \<longrightarrow>
            map fst (columns (frames ! i)) = [v])"
    by (simp add: fr labels_get_def)
next
  assume "\<forall>s \<in> set ss. points s \<noteq> []"
  from frames_loop_points [OF this, of "[]"]
  show "\<exists>result. frames_loop ss [] = Inr result" by simp
qed

text \<open>
  C9, witness: a series without the label followed by a series labelled \<open>web-1\<close>; their
  frames are headed \<open>instance\<close> and \<open>web-1\<close>.
\<close>

theorem column_header_from_label_witness:
  "frames_loop [series_named None [pt 1 (Double_value 10)],
                series_named (Some ''web-1'') [pt 1 (Double_value 10)]] [] =
     Inr [\<lparr>index = [PyTime 1], columns = [(''instance'', [PyFloat 10])]\<rparr>,
          \<lparr>index = [PyTime 1], columns = [(''web-1'', [PyFloat 10])]\<rparr>] \<and>
   map (\<lambda>f. map fst (columns f))
     [\<lparr>index = [PyTime 1], columns = [(''instance'', [PyFloat 10])]\<rparr>,
      \<lparr>index = [PyTime 1], columns = [(''web-1'', [PyFloat 10])]\<rparr>] =
     [[''instance''], [''web-1'']]"
proof -
  let ?ss = "[series_named None [pt 1 (Double_value 10)],
              series_named (Some ''web-1'') [pt 1 (Double_value 10)]]"
  let ?frames = "[\<lparr>index = [PyTime 1], columns = [(''instance'', [PyFloat 10])]\<rparr>,
                  \<lparr>index = [PyTime 1], columns = [(''web-1'', [PyFloat 10])]\<rparr>]"
  have a: "frames_loop ?ss [] = Inr ?frames"
    by (simp add: ev series_frame_def set_index_def rename_def labels_get_def)
  from column_header_from_label [of ?ss ?frames] a
  have "length ?frames = length ?ss" by blast
  with a show ?thesis by simp
qed

section \<open>The plot and the files written\<close>

text \<open>
  C4. The claim: for every fetched list of series the render step draws one line per series
  and saves the chart to \<open>cpu_util.png\<close> in the output directory. When the backend
  returns one series labelled \<open>a\<close> with one point, the run ends with \<open>KeyError\<close> on
  \<open>value\<close>, the name the column had before it was renamed, and no chart is written.
\<close>

theorem plot_fails_on_renamed_column:
  "fst (main parse_args_default (world_of (Dir []) [series_named (Some ''a'') [pt 1 (Double_value 10)]])) =
     Inl (KeyError ''value'') \<and>
   path_lookup (fs (snd (main parse_args_default
       (world_of (Dir []) [series_named (Some ''a'') [pt 1 (Double_value 10)]]))))
     ''results/metrics/cpu_util.png'' = None"
  by (simp add: ev ev_main)

text \<open>
  C5. The claim: every successful run writes a tabular export into the output directory.
  The run on one series labelled \<open>value\<close> with one point succeeds, and the output
  directory then holds the chart and nothing else.
\<close>

theorem successful_run_writes_only_chart:
  "fst (main parse_args_default
      (world_of (Dir []) [series_named (Some ''value'') [pt 1 (Double_value 10)]])) = Inr () \<and>
   fs (snd (main parse_args_default
      (world_of (Dir []) [series_named (Some ''value'') [pt 1 (Double_value 10)]]))) =
     Dir [(''results'', Dir [(''metrics'', Dir [(''cpu_util.png'',
       File (Png \<lparr>fig_lines = [[(PyTime 1, PyFloat 10)]],
                  fig_title = ''CPU utilization'',
                  fig_xlabel = ''time'',
                  fig_ylabel = ''utilization''\<rparr>))])])]"
  by (simp add: ev ev_main)

section \<open>The query\<close>

text \<open>
  C6. For every project \<open>P\<close>, filter \<open>F\<close> and interval \<open>I\<close>, \<open>fetch_metric\<close> sends
  exactly one request, with name \<open>projects/P\<close>, filter \<open>F\<close>, interval \<open>I\<close> and view
  \<open>FULL\<close>, and returns what the backend answers to it, unchanged.
\<close>

theorem fetch_metric_one_query:
  "fst (fetch_metric c P F I) =
     respond c \<lparr>req_name = ''projects/'' @ P, req_filter = F, req_interval = I, req_view = FULL\<rparr> \<and>
   calls (snd (fetch_metric c P F I)) =
     calls c @ [\<lparr>req_name = ''projects/'' @ P, req_filter = F, req_interval = I, req_view = FULL\<rparr>] \<and>
   respond (snd (fetch_metric c P F I)) = respond c"
  by (simp add: fetch_metric_def list_time_series_def)

text \<open>
  C8. The claim: whatever \<open>--start\<close> and \<open>--end\<close> are given, the window of the query ends
  now and starts 60 minutes earlier. A run that gets as far as the query (at a time when
  the start of the window is not before the epoch) is the same with and without the two
  options, and its window is 60 minutes long; but it ends at the second of the run less
  the offset of the local time zone from UTC, which is now only where local time is UTC.
\<close>

theorem query_window_ignores_overrides:
  assumes "directory_setup a w = Inr t" and "environ w ''GOOGLE_CLOUD_PROJECT'' = Some P"
    and "timedelta_minutes 60 + utc_offset w * 1000000 \<le> utcnow w"
  shows "calls (backend (snd (main (a\<lparr>start := s, end' := e\<rparr>) w))) =
           calls (backend w) @
             [\<lparr>req_name = ''projects/'' @ P,
               req_filter = cpu_filter,
               req_interval =
                 \<lparr>interval_end_time = utcnow w div 1000000 - utc_offset w,
                  interval_start_time = utcnow w div 1000000 - utc_offset w - 3600\<rparr>,
               req_view = FULL\<rparr>] \<and>
         main (a\<lparr>start := s, end' := e\<rparr>) w = main a w"
proof -
  have same: "main (a\<lparr>start := s, end' := e\<rparr>) w = main a w"
    by (simp add: main_def directory_setup_def Let_def split: sum.splits option.splits)
  have shift: "(x - y * 1000000) div 1000000 = x div 1000000 - y" for x y :: int
    using div_mult_self1 [of 1000000 x "- y"] by simp
  from assms(3) have pos: "0 \<le> utcnow w - 3600000000 - utc_offset w * 1000000"
    by (simp add: timedelta_minutes_def)
  have e: "int_timestamp (utc_offset w) (utcnow w) = utcnow w div 1000000 - utc_offset w"
    using pos by (simp add: int_timestamp_def shift)
  have "utcnow w - 3600000000 - utc_offset w * 1000000 =
        utcnow w - (utc_offset w + 3600) * 1000000"
    by (simp add: algebra_simps)
  then have s: "int_timestamp (utc_offset w) (utcnow w - timedelta_minutes 60) =
      utcnow w div 1000000 - utc_offset w - 3600"
    using pos shift [of "utcnow w" "utc_offset w + 3600"]
    by (simp add: int_timestamp_def timedelta_minutes_def)
  have "calls (backend (snd (main a w))) =
           calls (backend w) @
             [\<lparr>req_name = ''projects/'' @ P,
               req_filter = cpu_filter,
               req_interval =
                 \<lparr>interval_end_time = int_timestamp (utc_offset w) (utcnow w),
                  interval_start_time =
                    int_timestamp (utc_offset w) (utcnow w - timedelta_minutes 60)\<rparr>,
               req_view = FULL\<rparr>]"
    using assms(1,2)
    by (simp add: main_def Let_def fetch_metric_def list_time_series_def main_interval_def
          split: sum.splits)
  with same e s show ?thesis by simp
qed

text \<open>
  C8, witness: a run with both options given, at 1700000000 seconds, where local time is
  two hours ahead of UTC: the window sent is from 1699989200 to 1699992800, two hours
  before the run.
\<close>

theorem query_window_ignores_overrides_witness:
  "utcnow ((world_of (Dir []) [])\<lparr>utc_offset := 7200\<rparr>) div 1000000 = 1700000000 \<and>
   calls (backend (snd (main
      (parse_args_default\<lparr>start := Some ''2020-01-01'', end' := Some ''2020-01-02''\<rparr>)
      ((world_of (Dir []) [])\<lparr>utc_offset := 7200\<rparr>)))) =
     [\<lparr>req_name = ''projects/proj1'',
       req_filter = cpu_filter,
       req_interval = \<lparr>interval_end_time = 1699992800, interval_start_time = 1699989200\<rparr>,
       req_view = FULL\<rparr>]"
proof -
  let ?w = "(world_of (Dir []) [])\<lparr>utc_offset := 7200\<rparr>"
  have d: "directory_setup parse_args_default ?w =
      Inr (Dir [(''results'', Dir [(''metrics'', Dir [])])])"
    by (simp add: ev ev_main)
  have p: "environ ?w ''GOOGLE_CLOUD_PROJECT'' = Some ''proj1''"
    by (simp add: world_of_def)
  have n: "timedelta_minutes 60 + utc_offset ?w * 1000000 \<le> utcnow ?w"
    by (simp add: world_of_def timedelta_minutes_def)
  show ?thesis
    using query_window_ignores_overrides
      [OF d p n, where s = "Some ''2020-01-01''" and e = "Some ''2020-01-02''", THEN conjunct1]
    by (simp add: world_of_def)
qed

section \<open>Directory setup\<close>

text \<open>
  C10. When the output directory exists as a directory, the setup succeeds and leaves the
  whole tree, and so the files in that directory, as it was. The setup raises only when the
  path is empty or one of its components is a regular file; when it succeeds, the output
  directory exists afterwards.
\<close>

theorem directory_setup_existing:
  "(is_dir (path_lookup (fs w) (out_dir a)) \<longrightarrow> directory_setup a w = Inr (fs w)) \<and>
   (directory_setup a w = Inl e \<longrightarrow>
      out_dir a = [] \<or>
      (\<exists>n c. n \<le> length (components (out_dir a)) \<and>
             lookup (fs w) (take n (components (out_dir a))) = Some (File c))) \<and>
   (directory_setup a w = Inr t \<longrightarrow> is_dir (path_lookup t (out_dir a)))"
proof (intro conjI impI)
  assume "is_dir (path_lookup (fs w) (out_dir a))"
  then obtain es where "out_dir a \<noteq> []" "lookup (fs w) (components (out_dir a)) = Some (Dir es)"
    by (cases "path_lookup (fs w) (out_dir a)" rule: is_dir.cases)
       (auto simp: path_lookup_def split: if_splits)
  then show "directory_setup a w = Inr (fs w)"
    by (simp add: directory_setup_def makedirs_def makedirs_at_existing)
next
  assume err: "directory_setup a w = Inl e"
  show "out_dir a = [] \<or>
      (\<exists>n c. n \<le> length (components (out_dir a)) \<and>
             lookup (fs w) (take n (components (out_dir a))) = Some (File c))"
  proof (cases "out_dir a = []")
    case True
    then show ?thesis by simp
  next
    case False
    with err have "makedirs_at True (fs w) (components (out_dir a)) = Inl e"
      by (simp add: directory_setup_def makedirs_def)
    from makedirs_at_error [OF this] show ?thesis by simp
  qed
next
  assume "directory_setup a w = Inr t"
  then show "is_dir (path_lookup t (out_dir a))"
    by (auto simp: directory_setup_def makedirs_def path_lookup_def split: if_splits
          dest: makedirs_at_post)
qed

text \<open>
  C10, witness: an output directory that exists and holds a file, a path that is a regular
  file, and a directory that is created.
\<close>

theorem directory_setup_existing_witness:
  "is_dir (path_lookup (Dir [(''out'', Dir [(''old.csv'', File (Bytes ''x''))])]) ''out'') \<and>
   directory_setup \<lparr>out_dir = ''out'', start = None, end' = None\<rparr>
      (world_of (Dir [(''out'', Dir [(''old.csv'', File (Bytes ''x''))])]) []) =
     Inr (Dir [(''out'', Dir [(''old.csv'', File (Bytes ''x''))])]) \<and>
   directory_setup \<lparr>out_dir = ''out'', start = None, end' = None\<rparr>
      (world_of (Dir [(''out'', File (Bytes ''x''))]) []) = Inl FileExistsError \<and>
   lookup (Dir [(''out'', File (Bytes ''x''))]) (take 1 (components ''out'')) =
     Some (File (Bytes ''x'')) \<and>
   directory_setup \<lparr>out_dir = ''new'', start = None, end' = None\<rparr> (world_of (Dir []) []) =
     Inr (Dir [(''new'', Dir [])]) \<and>
   is_dir (path_lookup (Dir [(''new'', Dir [])]) ''new'')"
proof -
  have a: "is_dir (path_lookup (fs (world_of (Dir [(''out'', Dir [(''old.csv'', File (Bytes ''x''))])]) []))
      (out_dir \<lparr>out_dir = ''out'', start = None, end' = None\<rparr>))"
    by (simp add: world_of_def path_lookup_def components_def)
  have b: "directory_setup \<lparr>out_dir = ''out'', start = None, end' = None\<rparr>
      (world_of (Dir [(''out'', File (Bytes ''x''))]) []) = Inl FileExistsError"
    by (simp add: world_of_def directory_setup_def makedirs_def components_def)
  have c: "directory_setup \<lparr>out_dir = ''new'', start = None, end' = None\<rparr> (world_of (Dir []) []) =
     Inr (Dir [(''new'', Dir [])])"
    by (simp add: world_of_def directory_setup_def makedirs_def components_def)
  show ?thesis
    using a b c
      directory_setup_existing
        [where w = "world_of (Dir [(''out'', Dir [(''old.csv'', File (Bytes ''x''))])]) []"
           and a = "\<lparr>out_dir = ''out'', start = None, end' = None\<rparr>"]
      directory_setup_existing
        [where a = "\<lparr>out_dir = ''out'', start = None, end' = None\<rparr>"
           and w = "world_of (Dir [(''out'', File (Bytes ''x''))]) []"
           and e = FileExistsError]
      directory_setup_existing
        [where a = "\<lparr>out_dir = ''new'', start = None, end' = None\<rparr>"
           and w = "world_of (Dir []) []"
           and t = "Dir [(''new'', Dir [])]"]
    by (simp add: world_of_def path_lookup_def components_def)
qed

end
